theory Spec2Isabelle
  imports Complex_Main
begin

section \<open>Data model of \<open>modules/planning/common/frame.cc\<close>\<close>

subsection \<open>Numbers of type \<open>double\<close>\<close>

text \<open>
  The code does two things with a \<open>double\<close>. It asks whether a coordinate of the pose
  is not-a-number, and it hands the look-backward and look-forward distances to the map:
  for these a \<open>double\<close> is a finite number, one of the two infinities, or not-a-number,
  and no arithmetic is done on it.
\<close>

datatype double = Fin real | PInf | NInf | NaN

fun isnan :: "double \<Rightarrow> bool" where
  "isnan NaN = True"
| "isnan _ = False"

fun isfinite :: "double \<Rightarrow> bool" where
  "isfinite (Fin _) = True"
| "isfinite _ = False"

text \<open>
  And it adds and subtracts times (\<open>timestamp_sec\<close>, \<open>relative_time\<close>) in
  \<open>AlignPredictionTime\<close>. The sum and the difference of two \<open>double\<close>s are the rounded,
  overflowing operations of binary64, which are not defined here. The times are of a
  type \<open>'t\<close> that has a \<open>+\<close> and a \<open>-\<close>, and nothing is assumed of the two: what is
  proved of \<open>AlignPredictionTime\<close> holds of the \<open>double\<close>s of the machine, with their
  rounding, their infinities and their not-a-number, as it does of the real numbers.
\<close>

subsection \<open>Messages\<close>

text \<open>
  Modelled from the spec: the protobuf messages, whose generated classes are in other
  files. The accessors that \<open>frame.cc\<close> calls give the fields \<open>position\<close>, \<open>x\<close>, \<open>y\<close>,
  \<open>header\<close>, \<open>timestamp_sec\<close>, \<open>prediction_obstacle\<close>, \<open>trajectory\<close>,
  \<open>trajectory_point\<close>, \<open>relative_time\<close> and \<open>reference_line_smoother_config\<close>. The spec
  gives the rest: a pose is a "position (x, y, possibly heading)", a trajectory is a
  sequence of "(position, relative_time, ...)" points, and a predicted obstacle has an
  identity. A \<open>PointENU\<close> (east, north, up) has a third coordinate \<open>z\<close>. The fields of a
  point beside \<open>relative_time\<close> are there so that one can say that they are left alone.
\<close>

record PointENU =
  x_' :: double
  y_' :: double
  z_' :: double

record Pose =
  position :: PointENU
  heading :: double

record PathPoint =
  path_x :: double
  path_y :: double
  path_theta :: double

record 't TrajectoryPoint =
  path_point :: PathPoint
  speed :: double
  acceleration :: double
  relative_time :: 't

record 't Trajectory =
  probability :: double
  trajectory_point :: "'t TrajectoryPoint list"

record 't PredictionObstacle =
  perception_obstacle_id :: string
  trajectory :: "'t Trajectory list"

record 't Header =
  timestamp_sec :: 't

record 't PredictionObstacles =
  header :: "'t Header"
  prediction_obstacle :: "'t PredictionObstacle list"

record 'c PlanningConfig =
  reference_line_smoother_config :: 'c

subsection \<open>Collaborators\<close>

text \<open>
  \<open>frame.cc\<close> calls into classes that live in other files: the map
  (\<open>hdmap::PncMap\<close>), the smoother (\<open>ReferenceLineSmoother\<close>), \<open>ReferenceLine\<close>,
  \<open>Obstacle\<close>, the obstacle registry (\<open>IndexedObstacles\<close>), \<open>ReferenceLineInfo\<close> and
  \<open>PathDecision\<close>. Their types are type variables (\<open>'r\<close> routing response, \<open>'p\<close> map
  path, \<open>'l\<close> reference line, \<open>'c\<close> smoother configuration, \<open>'o\<close> obstacle, \<open>'g\<close>
  registry, \<open>'d\<close> path decision) and their operations are parameters, so that every
  theorem about \<open>frame.cc\<close> holds whatever they compute. (\<open>'t\<close> is the type of the
  times.)
\<close>

text \<open>
  \<open>PncMap::CreatePathFromRouting(routing, position, backward, forward, &path)\<close>:
  \<open>None\<close> when it returns false, the path it wrote otherwise.
\<close>

type_synonym ('r, 'p) PncMap = "'r \<Rightarrow> PointENU \<Rightarrow> double \<Rightarrow> double \<Rightarrow> 'p option"

record ('t, 'p, 'l, 'c, 'o, 'g, 'd) Collaborators =
  FLAGS_look_backward_distance :: double
  FLAGS_look_forward_distance :: double
  FLAGS_enable_prediction :: bool
  ReferenceLine_empty :: 'l
  ReferenceLine_of_path :: "'p \<Rightarrow> 'l"
  smooth :: "'c \<Rightarrow> 'l \<Rightarrow> 'l \<Rightarrow> bool \<times> 'l"
  CreateObstacles :: "'t PredictionObstacles \<Rightarrow> 'o list"
  Id_obstacle :: "'o \<Rightarrow> string"
  Add :: "'g \<Rightarrow> string \<Rightarrow> 'o \<Rightarrow> bool \<times> 'g"
  Items :: "'g \<Rightarrow> 'o list"
  PathDecision_empty :: 'd
  AddObstacles :: "'l \<Rightarrow> 'd \<Rightarrow> 'o list \<Rightarrow> bool \<times> 'd"

text \<open>
  \<open>ReferenceLine_empty\<close> is \<open>ReferenceLine()\<close> and \<open>ReferenceLine_of_path\<close> is
  \<open>ReferenceLine(hdmap_path)\<close>.
  \<open>smooth cfg raw out\<close> is \<open>smoother.Init(cfg); smoother.smooth(raw, &out)\<close>: the
  returned flag, and what \<open>out\<close> holds afterwards (on failure too).
  \<open>CreateObstacles\<close> is what \<open>Obstacle::CreateObstacles\<close> appends to the empty list it is
  given, \<open>Id_obstacle\<close> is \<open>Obstacle::Id\<close>.
  \<open>Add g id ptr\<close> is \<open>g.Add(id, std::move(ptr))\<close>: the returned flag and the registry
  afterwards; \<open>Items\<close> is \<open>IndexedObstacles::Items\<close>.
  \<open>AddObstacles l d items\<close> is \<open>ReferenceLineInfo::AddObstacles(items)\<close> on a candidate
  with reference line \<open>l\<close> and decision state \<open>d\<close>: the returned flag and the decision
  state afterwards.
\<close>

text \<open>
  Modelled from the spec: \<open>ReferenceLineInfo\<close>, whose class is in another file. It
  "wraps one ReferenceLine plus the subset of obstacles relevant to it plus a
  decision-state container (initially empty)"; the obstacles attached to a candidate are
  held by its decision state (\<open>path_decision()\<close> in \<open>Frame::Init\<close>).
\<close>

record ('l, 'd) ReferenceLineInfo =
  reference_line :: 'l
  path_decision :: 'd

text \<open>
  Modelled from the spec: the constructor \<open>ReferenceLineInfo(reference_line)\<close>, in
  another file: the candidate wraps the line, and its decision state is "initially
  empty".
\<close>

definition ReferenceLineInfo_new ::
  "('t, 'p, 'l, 'c, 'o, 'g, 'd) Collaborators \<Rightarrow> 'l \<Rightarrow> ('l, 'd) ReferenceLineInfo" where
  "ReferenceLineInfo_new env l = \<lparr>reference_line = l, path_decision = PathDecision_empty env\<rparr>"

subsection \<open>The frame\<close>

text \<open>
  What the code does besides changing the frame: it calls a collaborator, or it writes
  a line to the error log (\<open>AERROR\<close>). Both are recorded, in order, so that a claim
  that a collaborator is not reached, or that a failure has a given cause, can be
  stated.
\<close>

datatype call =
  CreatePathFromRouting_call | smooth_call | CreateObstacles_call
  | Add_call string | AddObstacles_call

datatype event = Call call | AERROR string

text \<open>
  The members of \<open>Frame\<close> that the modelled functions read or write. \<open>pnc_map_'\<close> is the
  static member (\<open>None\<close> is \<open>nullptr\<close>). \<open>path_decision_'\<close> is a pointer to the
  \<open>PathDecision\<close> of an element of \<open>reference_line_info_'\<close>: \<open>Some i\<close> points into element
  \<open>i\<close>, \<open>None\<close> is \<open>nullptr\<close>. \<open>events\<close> is the record of calls and log lines.
  A member's name ends in \<open>_'\<close> where the source has \<open>_\<close>, which a field name cannot
  end with.
\<close>

record ('t, 'r, 'p, 'l, 'c, 'g, 'd) Frame =
  pnc_map_' :: "('r, 'p) PncMap option"
  init_pose_' :: Pose
  routing_response_' :: 'r
  prediction_' :: "'t PredictionObstacles"
  obstacles_' :: 'g
  reference_line_info_' :: "('l, 'd) ReferenceLineInfo list"
  reference_line_' :: 'l
  path_decision_' :: "nat option"
  smoother_config_' :: 'c
  events :: "event list"

definition record_event ::
  "event \<Rightarrow> ('t, 'r, 'p, 'l, 'c, 'g, 'd) Frame \<Rightarrow> ('t, 'r, 'p, 'l, 'c, 'g, 'd) Frame" where
  "record_event e f = f\<lparr>events := events f @ [e]\<rparr>"

text \<open>The events that a run from frame \<open>f\<close> to frame \<open>f1\<close> has added.\<close>

definition events_since ::
  "('t, 'r, 'p, 'l, 'c, 'g, 'd) Frame \<Rightarrow> ('t, 'r, 'p, 'l, 'c, 'g, 'd) Frame \<Rightarrow> event list" where
  "events_since f f1 = drop (length (events f)) (events f1)"

section \<open>Operations\<close>

subsection \<open>\<open>Frame::SetPrediction\<close>\<close>

definition SetPrediction ::
  "'t PredictionObstacles \<Rightarrow> ('t, 'r, 'p, 'l, 'c, 'g, 'd) Frame \<Rightarrow> ('t, 'r, 'p, 'l, 'c, 'g, 'd) Frame" where
  "SetPrediction prediction f = f\<lparr>prediction_' := prediction\<rparr>"

subsection \<open>\<open>Frame::CreatePredictionObstacles\<close>\<close>

text \<open>
  The loop over the obstacles made from the prediction: each one is handed to the
  registry's \<open>Add\<close> under its own id, and the flag \<open>Add\<close> returns is dropped.
\<close>

fun add_each ::
  "('t, 'p, 'l, 'c, 'o, 'g, 'd) Collaborators \<Rightarrow> 'o list \<Rightarrow> ('t, 'r, 'p, 'l, 'c, 'g, 'd) Frame
    \<Rightarrow> ('t, 'r, 'p, 'l, 'c, 'g, 'd) Frame" where
  "add_each env [] f = f"
| "add_each env (ptr # rest) f =
     (let id = Id_obstacle env ptr;
          f1 = record_event (Call (Add_call id)) f
      in add_each env rest (f1\<lparr>obstacles_' := snd (Add env (obstacles_' f1) id ptr)\<rparr>))"

definition CreatePredictionObstacles ::
  "('t, 'p, 'l, 'c, 'o, 'g, 'd) Collaborators \<Rightarrow> 't PredictionObstacles
    \<Rightarrow> ('t, 'r, 'p, 'l, 'c, 'g, 'd) Frame \<Rightarrow> ('t, 'r, 'p, 'l, 'c, 'g, 'd) Frame" where
  "CreatePredictionObstacles env prediction f =
     (let obstacles = CreateObstacles env prediction
      in add_each env obstacles (record_event (Call CreateObstacles_call) f))"

subsection \<open>\<open>Frame::InitReferenceLineInfo\<close>\<close>

text \<open>
  The second loop of \<open>InitReferenceLineInfo\<close>: \<open>AddObstacles\<close> on each candidate in
  turn, stopping at the first that fails. It returns the flag, the candidates as the
  loop leaves them, and the events of the loop.
\<close>

fun attach_each ::
  "('t, 'p, 'l, 'c, 'o, 'g, 'd) Collaborators \<Rightarrow> 'o list \<Rightarrow> ('l, 'd) ReferenceLineInfo list
    \<Rightarrow> bool \<times> ('l, 'd) ReferenceLineInfo list \<times> event list" where
  "attach_each env items [] = (True, [], [])"
| "attach_each env items (info # rest) =
     (case AddObstacles env (reference_line info) (path_decision info) items of
        (ok, d) \<Rightarrow>
          (let info1 = info\<lparr>path_decision := d\<rparr> in
           if \<not> ok
           then (False, info1 # rest,
                 [Call AddObstacles_call, AERROR ''Failed to add obstacles to reference line''])
           else (case attach_each env items rest of
                   (ok1, rest1, ev) \<Rightarrow> (ok1, info1 # rest1, Call AddObstacles_call # ev))))"

definition InitReferenceLineInfo ::
  "('t, 'p, 'l, 'c, 'o, 'g, 'd) Collaborators \<Rightarrow> 'l list \<Rightarrow> ('t, 'r, 'p, 'l, 'c, 'g, 'd) Frame
    \<Rightarrow> bool \<times> ('t, 'r, 'p, 'l, 'c, 'g, 'd) Frame" where
  "InitReferenceLineInfo env reference_lines f =
     (let f1 = f\<lparr>reference_line_info_' := []\<rparr>;
          f2 = f1\<lparr>reference_line_info_' :=
                 reference_line_info_' f1 @ map (ReferenceLineInfo_new env) reference_lines\<rparr>
      in case attach_each env (Items env (obstacles_' f2)) (reference_line_info_' f2) of
           (ok, infos, ev) \<Rightarrow>
             (ok, f2\<lparr>reference_line_info_' := infos, events := events f2 @ ev\<rparr>))"

subsection \<open>\<open>Frame::CreateReferenceLineFromRouting\<close>\<close>

text \<open>
  The result is \<open>None\<close> where the C++ has no defined behaviour: \<open>pnc_map_'\<close> is
  dereferenced without a test. Otherwise it is the flag, the vector behind
  \<open>reference_lines\<close> and the frame.
\<close>

definition CreateReferenceLineFromRouting ::
  "('t, 'p, 'l, 'c, 'o, 'g, 'd) Collaborators \<Rightarrow> PointENU \<Rightarrow> 'r \<Rightarrow> 'l list
    \<Rightarrow> ('t, 'r, 'p, 'l, 'c, 'g, 'd) Frame
    \<Rightarrow> (bool \<times> 'l list \<times> ('t, 'r, 'p, 'l, 'c, 'g, 'd) Frame) option" where
  "CreateReferenceLineFromRouting env pos routing reference_lines f =
     (case pnc_map_' f of
        None \<Rightarrow> None
      | Some pnc_map \<Rightarrow>
          (let f1 = record_event (Call CreatePathFromRouting_call) f in
           case pnc_map routing pos (FLAGS_look_backward_distance env)
                  (FLAGS_look_forward_distance env) of
             None \<Rightarrow>
               Some (False, reference_lines,
                     record_event (AERROR ''Failed to get path from routing'') f1)
           | Some hdmap_path \<Rightarrow>
               (let lines1 = reference_lines @ [ReferenceLine_empty env];
                    back = length lines1 - 1;
                    f2 = record_event (Call smooth_call) f1
                in case smooth env (smoother_config_' f2) (ReferenceLine_of_path env hdmap_path)
                          (lines1 ! back) of
                     (ok, out) \<Rightarrow>
                       (let lines2 = lines1[back := out] in
                        if \<not> ok
                        then Some (False, lines2,
                                   record_event (AERROR ''Failed to smooth reference line'') f2)
                        else Some (True, lines2, f2)))))"

subsection \<open>\<open>Frame::Init\<close>\<close>

text \<open>
  The result is \<open>None\<close> where the C++ has no defined behaviour (\<open>front()\<close> of an empty
  vector, element 0 of an empty vector); otherwise it is the returned flag and the
  frame. The flag of \<open>InitReferenceLineInfo\<close> is not looked at, as in the source. The
  log line of a failed builder ends with the pose's \<open>DebugString()\<close> in the source;
  the record keeps the fixed part.
\<close>

definition Init ::
  "('t, 'p, 'l, 'c, 'o, 'g, 'd) Collaborators \<Rightarrow> 'c PlanningConfig
    \<Rightarrow> ('t, 'r, 'p, 'l, 'c, 'g, 'd) Frame \<Rightarrow> (bool \<times> ('t, 'r, 'p, 'l, 'c, 'g, 'd) Frame) option" where
  "Init env config f =
     (if pnc_map_' f = None
      then Some (False, record_event (AERROR ''map is null, call SetMap() first'') f)
      else
        (let point = position (init_pose_' f) in
         if isnan (x_' point) \<or> isnan (y_' point)
         then Some (False, record_event (AERROR ''init point is not set'') f)
         else
           (let f1 = f\<lparr>smoother_config_' := reference_line_smoother_config config\<rparr> in
            case CreateReferenceLineFromRouting env (position (init_pose_' f1))
                   (routing_response_' f1) [] f1 of
              None \<Rightarrow> None
            | Some (ok, reference_lines, f2) \<Rightarrow>
                if \<not> ok
                then Some (False,
                       record_event (AERROR ''Failed to create reference line from position: '') f2)
                else
                  (let f3 = (if FLAGS_enable_prediction env
                             then CreatePredictionObstacles env (prediction_' f2) f2 else f2)
                   in case InitReferenceLineInfo env reference_lines f3 of
                        (attached, f4) \<Rightarrow>
                          (case reference_lines of
                             [] \<Rightarrow> None
                           | front # _ \<Rightarrow>
                               (let f5 = f4\<lparr>reference_line_' := front\<rparr> in
                                if reference_line_info_' f5 = [] then None
                                else Some (True, f5\<lparr>path_decision_' := Some 0\<rparr>)))))))"

subsection \<open>\<open>Frame::AlignPredictionTime\<close>\<close>

text \<open>
  The loop \<open>for (int i = 0; i < size; i++) { body(mutable(i)); }\<close> over a repeated
  field, from index \<open>i\<close> on.
\<close>

function for_each_mutable :: "('a \<Rightarrow> 'a) \<Rightarrow> nat \<Rightarrow> 'a list \<Rightarrow> 'a list" where
  "for_each_mutable body i xs =
     (if i < length xs then for_each_mutable body (Suc i) (xs[i := body (xs ! i)]) else xs)"
  by pat_completeness auto
termination
  by (relation "measure (\<lambda>(body, i, xs). length xs - i)") auto

declare for_each_mutable.simps [simp del]

definition AlignPredictionTime ::
  "'t::{plus, minus} \<Rightarrow> ('t, 'r, 'p, 'l, 'c, 'g, 'd) Frame \<Rightarrow> ('t, 'r, 'p, 'l, 'c, 'g, 'd) Frame"
  where
  "AlignPredictionTime trajectory_header_time f =
     (let prediction_header_time = timestamp_sec (header (prediction_' f)) in
      f\<lparr>prediction_' := (prediction_' f)\<lparr>prediction_obstacle :=
          for_each_mutable
            (\<lambda>obstacle. obstacle\<lparr>trajectory :=
               for_each_mutable
                 (\<lambda>traj. traj\<lparr>trajectory_point :=
                    for_each_mutable
                      (\<lambda>point.
                         (let abs_relative_time = relative_time point in
                          point\<lparr>relative_time :=
                            prediction_header_time + abs_relative_time - trajectory_header_time\<rparr>))
                      0 (trajectory_point traj)\<rparr>)
                 0 (trajectory obstacle)\<rparr>)
            0 (prediction_obstacle (prediction_' f))\<rparr>\<rparr>)"

subsection \<open>Reading a prediction set\<close>

text \<open>
  Point \<open>k\<close> of trajectory \<open>j\<close> of obstacle \<open>i\<close> of a prediction set, and the indices
  for which there is such a point.
\<close>

definition point_at ::
  "'t PredictionObstacles \<Rightarrow> nat \<Rightarrow> nat \<Rightarrow> nat \<Rightarrow> 't TrajectoryPoint" where
  "point_at p i j k = trajectory_point (trajectory (prediction_obstacle p ! i) ! j) ! k"

definition has_point :: "'t PredictionObstacles \<Rightarrow> nat \<Rightarrow> nat \<Rightarrow> nat \<Rightarrow> bool" where
  "has_point p i j k \<longleftrightarrow>
     i < length (prediction_obstacle p) \<and>
     j < length (trajectory (prediction_obstacle p ! i)) \<and>
     k < length (trajectory_point (trajectory (prediction_obstacle p ! i) ! j))"

section \<open>Concrete collaborators and inputs\<close>

text \<open>
  Modelled from the spec: \<open>Obstacle\<close>, whose class is in another file. An obstacle has
  an "identity (stable external ID)" and "one predicted trajectory (or none)".
\<close>

record 't Obstacle =
  obstacle_id :: string
  obstacle_trajectory :: "'t Trajectory option"

text \<open>
  Modelled from the spec: \<open>Obstacle::CreateObstacles\<close>, which is in another file. The
  registry is built "for each predicted obstacle in the cycle's PredictionSet": one
  obstacle for each, in order, with the identity of the predicted obstacle.
\<close>

definition Obstacle_CreateObstacles :: "'t PredictionObstacles \<Rightarrow> 't Obstacle list" where
  "Obstacle_CreateObstacles prediction =
     map (\<lambda>po. \<lparr>obstacle_id = perception_obstacle_id po,
                 obstacle_trajectory = (case trajectory po of [] \<Rightarrow> None | t # _ \<Rightarrow> Some t)\<rparr>)
       (prediction_obstacle prediction)"

text \<open>
  Modelled from the spec: \<open>Add\<close> of the keyed registry behind \<open>IndexedObstacles\<close>, which
  is in another file, without a capacity: "add(key, value) inserts an owned value under
  a key; fails if the key already exists". The registry is the list of its entries in
  the order they came; a failing \<open>Add\<close> leaves it as it was.
\<close>

definition IndexedList_Add ::
  "(string \<times> 'o) list \<Rightarrow> string \<Rightarrow> 'o \<Rightarrow> bool \<times> (string \<times> 'o) list" where
  "IndexedList_Add g key ptr =
     (if key \<in> fst ` set g then (False, g) else (True, g @ [(key, ptr)]))"

text \<open>
  Modelled from the spec: \<open>Items\<close> of the same registry: "items() produces a lazy,
  insertion-ordered sequence of (key, value) pairs", of which the callers here use the
  values.
\<close>

definition IndexedList_Items :: "(string \<times> 'o) list \<Rightarrow> 'o list" where
  "IndexedList_Items g = map snd g"

text \<open>
  A set of collaborators to run the code on, for any type of times. A routing response
  and a map path are lists of waypoint numbers, a reference line too; the map finds a
  path for every routing response with a waypoint; the smoother converges when its
  configuration says so; a decision state is the list of the ids attached to it, and
  attaching succeeds when \<open>attach_ok\<close> says so.
\<close>

definition test_map :: "(nat list, nat list) PncMap" where
  "test_map routing pos backward forward = (if routing = [] then None else Some routing)"

definition test_env ::
  "bool \<Rightarrow>
    ('t, nat list, nat list, bool, 't Obstacle, (string \<times> 't Obstacle) list, string list)
      Collaborators"
  where
  "test_env attach_ok =
     \<lparr>FLAGS_look_backward_distance = Fin 30,
      FLAGS_look_forward_distance = Fin 250,
      FLAGS_enable_prediction = True,
      ReferenceLine_empty = [],
      ReferenceLine_of_path = (\<lambda>path. path),
      smooth = (\<lambda>cfg raw out. if cfg then (True, raw) else (False, out)),
      CreateObstacles = Obstacle_CreateObstacles,
      Id_obstacle = obstacle_id,
      Add = IndexedList_Add,
      Items = IndexedList_Items,
      PathDecision_empty = [],
      AddObstacles = (\<lambda>l d items.
         if attach_ok then (True, d @ map obstacle_id items) else (False, d))\<rparr>"

definition test_point :: "'t \<Rightarrow> 't TrajectoryPoint" where
  "test_point t =
     \<lparr>path_point = \<lparr>path_x = Fin 12, path_y = Fin 5, path_theta = Fin 0\<rparr>,
      speed = Fin 3, acceleration = Fin 0, relative_time = t\<rparr>"

definition test_obstacle :: "string \<Rightarrow> 't \<Rightarrow> 't PredictionObstacle" where
  "test_obstacle key t =
     \<lparr>perception_obstacle_id = key,
      trajectory = [\<lparr>probability = Fin 1, trajectory_point = [test_point t]\<rparr>]\<rparr>"

definition test_prediction ::
  "'t \<Rightarrow> 't PredictionObstacle list \<Rightarrow> 't PredictionObstacles" where
  "test_prediction t obstacles = \<lparr>header = \<lparr>timestamp_sec = t\<rparr>, prediction_obstacle = obstacles\<rparr>"

text \<open>
  A frame as it is before \<open>Init\<close>: the setters have stored the pose, the routing
  response and the prediction; nothing is derived yet. Where the code is run on such a
  frame below, the times are real numbers: 100, 101, 0.5 and 1, all of them binary64
  numbers, as are the sums and differences that \<open>AlignPredictionTime\<close> takes of them
  there, so that the machine computes the same values.
\<close>

definition test_frame ::
  "(nat list, nat list) PncMap option \<Rightarrow> PointENU \<Rightarrow> 't PredictionObstacles
    \<Rightarrow> ('t, nat list, nat list, nat list, bool, (string \<times> 't Obstacle) list, string list)
         Frame" where
  "test_frame pnc_map pos prediction =
     \<lparr>pnc_map_' = pnc_map,
      init_pose_' = \<lparr>position = pos, heading = Fin 0\<rparr>,
      routing_response_' = [1, 2, 3],
      prediction_' = prediction,
      obstacles_' = [],
      reference_line_info_' = [],
      reference_line_' = [],
      path_decision_' = None,
      smoother_config_' = False,
      events = []\<rparr>"

definition test_pos :: PointENU where
  "test_pos = \<lparr>x_' = Fin 10, y_' = Fin 5, z_' = Fin 0\<rparr>"

definition test_config :: "bool \<Rightarrow> bool PlanningConfig" where
  "test_config converges = \<lparr>reference_line_smoother_config = converges\<rparr>"

section \<open>Finite and not-a-number\<close>

lemma isfinite_not_nan: "isfinite d \<Longrightarrow> \<not> isnan d"
  by (cases d) simp_all

section \<open>The loops of \<open>AlignPredictionTime\<close>\<close>

lemma for_each_mutable_from:
  "for_each_mutable body i xs = take i xs @ map body (drop i xs)"
proof (induction body i xs rule: for_each_mutable.induct)
  case (1 body i xs)
  show ?case
  proof (cases "i < length xs")
    case True
    have "for_each_mutable body i xs = for_each_mutable body (Suc i) (xs[i := body (xs ! i)])"
      using True by (simp add: for_each_mutable.simps [of body i xs])
    also have "\<dots> = take (Suc i) (xs[i := body (xs ! i)])
        @ map body (drop (Suc i) (xs[i := body (xs ! i)]))"
      using "1.IH" True by simp
    also have "\<dots> = take i xs @ [body (xs ! i)] @ map body (drop (Suc i) xs)"
      using True by (simp add: take_Suc_conv_app_nth)
    also have "\<dots> = take i xs @ map body (drop i xs)"
      using True by (simp add: Cons_nth_drop_Suc [symmetric])
    finally show ?thesis .
  next
    case False
    then show ?thesis by (simp add: for_each_mutable.simps [of body i xs])
  qed
qed

lemma for_each_mutable_map: "for_each_mutable body 0 xs = map body xs"
  by (simp add: for_each_mutable_from)

lemma AlignPredictionTime_map:
  "AlignPredictionTime H f =
     f\<lparr>prediction_' := (prediction_' f)\<lparr>prediction_obstacle :=
        map (\<lambda>ob. ob\<lparr>trajectory :=
              map (\<lambda>tr. tr\<lparr>trajectory_point :=
                     map (\<lambda>p. p\<lparr>relative_time :=
                             timestamp_sec (header (prediction_' f)) + relative_time p - H\<rparr>)
                       (trajectory_point tr)\<rparr>)
                (trajectory ob)\<rparr>)
          (prediction_obstacle (prediction_' f))\<rparr>\<rparr>"
  by (simp add: AlignPredictionTime_def for_each_mutable_map Let_def)

lemma has_point_Align:
  "has_point (prediction_' (AlignPredictionTime H f)) i j k = has_point (prediction_' f) i j k"
  by (auto simp add: AlignPredictionTime_map has_point_def)

lemma point_at_Align:
  assumes "has_point (prediction_' f) i j k"
  shows "point_at (prediction_' (AlignPredictionTime H f)) i j k =
    (point_at (prediction_' f) i j k)\<lparr>relative_time :=
       timestamp_sec (header (prediction_' f)) + relative_time (point_at (prediction_' f) i j k) - H\<rparr>"
  using assms by (simp add: AlignPredictionTime_map has_point_def point_at_def)

lemma header_Align:
  "header (prediction_' (AlignPredictionTime H f)) = header (prediction_' f)"
  by (simp add: AlignPredictionTime_map)

section \<open>The steps of \<open>Init\<close>\<close>

lemma add_each_eq:
  "add_each env obs f =
     f\<lparr>obstacles_' := foldl (\<lambda>g ptr. snd (Add env g (Id_obstacle env ptr) ptr)) (obstacles_' f) obs,
       events := events f @ map (\<lambda>ptr. Call (Add_call (Id_obstacle env ptr))) obs\<rparr>"
  by (induction obs arbitrary: f) (simp_all add: record_event_def Let_def)

lemma CreatePredictionObstacles_eq:
  "CreatePredictionObstacles env prediction f =
     f\<lparr>obstacles_' := foldl (\<lambda>g ptr. snd (Add env g (Id_obstacle env ptr) ptr)) (obstacles_' f)
                        (CreateObstacles env prediction),
       events := events f @ Call CreateObstacles_call #
                 map (\<lambda>ptr. Call (Add_call (Id_obstacle env ptr))) (CreateObstacles env prediction)\<rparr>"
  by (simp add: CreatePredictionObstacles_def add_each_eq record_event_def Let_def)

lemma attach_each_lines:
  "map reference_line (fst (snd (attach_each env items infos))) = map reference_line infos"
  by (induction infos) (auto simp add: Let_def split: prod.splits)


lemma InitReferenceLineInfo_frame:
  "snd (InitReferenceLineInfo env ls f) =
     f\<lparr>reference_line_info_' :=
          fst (snd (attach_each env (Items env (obstacles_' f)) (map (ReferenceLineInfo_new env) ls))),
       events := events f @
          snd (snd (attach_each env (Items env (obstacles_' f)) (map (ReferenceLineInfo_new env) ls)))\<rparr>"
  by (simp add: InitReferenceLineInfo_def split: prod.splits)

lemma InitReferenceLineInfo_lines:
  "map reference_line (reference_line_info_' (snd (InitReferenceLineInfo env ls f))) = ls"
  by (simp add: InitReferenceLineInfo_frame attach_each_lines ReferenceLineInfo_new_def comp_def)

lemma CreateReferenceLineFromRouting_eq:
  assumes "pnc_map_' f = Some m"
  shows "CreateReferenceLineFromRouting env pos routing ls f =
     (case m routing pos (FLAGS_look_backward_distance env) (FLAGS_look_forward_distance env) of
        None \<Rightarrow> Some (False, ls,
          f\<lparr>events := events f @ [Call CreatePathFromRouting_call,
                                   AERROR ''Failed to get path from routing'']\<rparr>)
      | Some path \<Rightarrow>
          (let r = smooth env (smoother_config_' f) (ReferenceLine_of_path env path)
                     (ReferenceLine_empty env)
           in Some (fst r, ls @ [snd r],
                f\<lparr>events := events f @ [Call CreatePathFromRouting_call, Call smooth_call] @
                   (if fst r then [] else [AERROR ''Failed to smooth reference line''])\<rparr>)))"
  using assms
  by (simp add: CreateReferenceLineFromRouting_def record_event_def Let_def
      split: option.splits prod.splits)

lemma InitReferenceLineInfo_nonempty:
  "ls \<noteq> [] \<Longrightarrow> reference_line_info_' (snd (InitReferenceLineInfo env ls f)) \<noteq> []"
  using InitReferenceLineInfo_lines [of env ls f] by (metis list.map_disc_iff)

lemma Init_reached:
  fixes f :: "('t, 'r, 'p, 'l, 'c, 'g, 'd) Frame"
  assumes m: "pnc_map_' f = Some m"
    and x: "\<not> isnan (x_' (position (init_pose_' f)))"
    and y: "\<not> isnan (y_' (position (init_pose_' f)))"
    and path: "m (routing_response_' f) (position (init_pose_' f))
                 (FLAGS_look_backward_distance env) (FLAGS_look_forward_distance env) = Some path"
    and sm: "smooth env (reference_line_smoother_config config) (ReferenceLine_of_path env path)
               (ReferenceLine_empty env) = (True, l)"
  defines "f2 \<equiv> f\<lparr>smoother_config_' := reference_line_smoother_config config,
                     events := events f @ [Call CreatePathFromRouting_call, Call smooth_call]\<rparr>"
  shows "Init env config f =
     Some (True,
       (snd (InitReferenceLineInfo env [l]
          (if FLAGS_enable_prediction env then CreatePredictionObstacles env (prediction_' f) f2
           else f2)))
       \<lparr>reference_line_' := l, path_decision_' := Some 0\<rparr>)"
proof -
  let ?f1 = "f\<lparr>smoother_config_' := reference_line_smoother_config config\<rparr>"
  have m1: "pnc_map_' ?f1 = Some m" using m by simp
  have c: "CreateReferenceLineFromRouting env (position (init_pose_' f))
             (routing_response_' f) [] ?f1 = Some (True, [l], f2)"
    using path sm by (simp add: CreateReferenceLineFromRouting_eq [OF m1] f2_def)
  have p: "prediction_' f2 = prediction_' f" by (simp add: f2_def)
  have n: "reference_line_info_' (snd (InitReferenceLineInfo env [l] g)) \<noteq> []"
    for g :: "('t, 'r, 'p, 'l, 'c, 'g, 'd) Frame"
    by (rule InitReferenceLineInfo_nonempty) simp
  show ?thesis
    using m x y by (simp add: Init_def c p n Let_def case_prod_beta)
qed

lemma Init_flag:
  "map_option fst (Init env config f) =
     Some (case pnc_map_' f of
             None \<Rightarrow> False
           | Some m \<Rightarrow>
               \<not> isnan (x_' (position (init_pose_' f))) \<and>
               \<not> isnan (y_' (position (init_pose_' f))) \<and>
               (case m (routing_response_' f) (position (init_pose_' f))
                       (FLAGS_look_backward_distance env) (FLAGS_look_forward_distance env) of
                  None \<Rightarrow> False
                | Some path \<Rightarrow>
                    fst (smooth env (reference_line_smoother_config config)
                           (ReferenceLine_of_path env path) (ReferenceLine_empty env))))"
proof (cases "pnc_map_' f")
  case None
  then show ?thesis by (simp add: Init_def)
next
  case (Some m)
  let ?f1 = "f\<lparr>smoother_config_' := reference_line_smoother_config config\<rparr>"
  have m1: "pnc_map_' ?f1 = Some m" using Some by simp
  show ?thesis
  proof (cases "isnan (x_' (position (init_pose_' f))) \<or> isnan (y_' (position (init_pose_' f)))")
    case True
    then show ?thesis using Some by (auto simp add: Init_def)
  next
    case False
    show ?thesis
    proof (cases "m (routing_response_' f) (position (init_pose_' f))
                 (FLAGS_look_backward_distance env) (FLAGS_look_forward_distance env)")
      case None
      then show ?thesis
        using Some False by (simp add: Init_def CreateReferenceLineFromRouting_eq [OF m1])
    next
      case path: (Some path)
      obtain ok l where sm: "smooth env (reference_line_smoother_config config)
          (ReferenceLine_of_path env path) (ReferenceLine_empty env) = (ok, l)"
        by (cases "smooth env (reference_line_smoother_config config)
          (ReferenceLine_of_path env path) (ReferenceLine_empty env)")
      show ?thesis
      proof (cases ok)
        case True
        then show ?thesis
          using Init_reached [OF Some _ _ path, of config l] sm False Some path by simp
      next
        case no: False
        then show ?thesis
          using Some False path sm
          by (simp add: Init_def CreateReferenceLineFromRouting_eq [OF m1])
      qed
    qed
  qed
qed

lemma Init_defined: "\<exists>ok f1. Init env config f = Some (ok, f1)"
  using Init_flag [of env config f] by (cases "Init env config f") auto


lemma Init_calls_map:
  fixes f :: "('t, 'r, 'p, 'l, 'c, 'g, 'd) Frame"
  assumes m: "pnc_map_' f = Some m"
    and x: "\<not> isnan (x_' (position (init_pose_' f)))"
    and y: "\<not> isnan (y_' (position (init_pose_' f)))"
    and run: "Init env config f = Some (ok, f1)"
  shows "\<exists>rest. events f1 = events f @ Call CreatePathFromRouting_call # rest"
proof -
  let ?g = "f\<lparr>smoother_config_' := reference_line_smoother_config config\<rparr>"
  have m1: "pnc_map_' ?g = Some m" using m by simp
  show ?thesis
  proof (cases "m (routing_response_' f) (position (init_pose_' f))
                 (FLAGS_look_backward_distance env) (FLAGS_look_forward_distance env)")
    case None
    then show ?thesis
      using m x y run
      by (auto simp add: Init_def CreateReferenceLineFromRouting_eq [OF m1] record_event_def)
  next
    case (Some path)
    obtain b l where sm: "smooth env (reference_line_smoother_config config)
        (ReferenceLine_of_path env path) (ReferenceLine_empty env) = (b, l)"
      by (cases "smooth env (reference_line_smoother_config config)
        (ReferenceLine_of_path env path) (ReferenceLine_empty env)")
    show ?thesis
    proof (cases b)
      case True
      with sm have sm1: "smooth env (reference_line_smoother_config config)
          (ReferenceLine_of_path env path) (ReferenceLine_empty env) = (True, l)"
        by simp
      show ?thesis
        using run unfolding Init_reached [OF m x y Some sm1]
        by (auto simp add: InitReferenceLineInfo_frame CreatePredictionObstacles_eq
            simp del: attach_each.simps)
    next
      case False
      then show ?thesis
        using m x y run Some sm
        by (auto simp add: Init_def CreateReferenceLineFromRouting_eq [OF m1] record_event_def)
    qed
  qed
qed

section \<open>Running the code on concrete inputs\<close>

lemmas test_defs = test_frame_def test_prediction_def test_obstacle_def test_point_def
  test_pos_def test_config_def test_map_def test_env_def

lemmas run_defs = Init_def CreateReferenceLineFromRouting_def InitReferenceLineInfo_def
  CreatePredictionObstacles_def SetPrediction_def Obstacle_CreateObstacles_def record_event_def
  ReferenceLineInfo_new_def IndexedList_Items_def IndexedList_Add_def events_since_def Let_def

section \<open>Claims\<close>

subsection \<open>C1: a failed attachment step\<close>

text \<open>
  C1 says that \<open>Init\<close> fails when attaching obstacles to a candidate fails. The
  code does not do that: \<open>InitReferenceLineInfo\<close> reports the failure (it logs
  "Failed to add obstacles to reference line" and returns false), and \<open>Init\<close> calls it
  without looking at what it returns. Here the map is set, the pose is (10, 5), the map
  and the smoother succeed, the prediction set holds one obstacle, and \<open>AddObstacles\<close>
  fails: \<open>InitReferenceLineInfo\<close> on the one candidate returns false, and \<open>Init\<close>
  returns true, with the failure in its log.
\<close>

theorem Init_ignores_failed_attachment:
  "fst (InitReferenceLineInfo (test_env False) [[1, 2, 3]]
          (test_frame (Some test_map) test_pos
             (test_prediction (100::real) [test_obstacle ''99'' (1/2)]))) = False \<and>
   map_option (\<lambda>(ok, f1). (ok, events f1))
     (Init (test_env False) (test_config True)
        (test_frame (Some test_map) test_pos
           (test_prediction (100::real) [test_obstacle ''99'' (1/2)]))) =
   Some (True,
     [Call CreatePathFromRouting_call, Call smooth_call, Call CreateObstacles_call,
      Call (Add_call ''99''), Call AddObstacles_call,
      AERROR ''Failed to add obstacles to reference line''])"
  by (simp add: run_defs test_defs)

subsection \<open>C2: the rebased relative time\<close>

text \<open>
  C2. For every obstacle \<open>i\<close>, trajectory \<open>j\<close> and point \<open>k\<close> of the prediction set
  of the frame, after one call of \<open>AlignPredictionTime\<close> with header time \<open>H\<close> the
  point's \<open>relative_time\<close> is the header timestamp of the prediction set, plus the
  point's \<open>relative_time\<close> before the call, minus \<open>H\<close>, with the \<open>+\<close> and the \<open>-\<close> of
  the type of the times, whatever they are.
\<close>

theorem AlignPredictionTime_relative_time:
  assumes "has_point (prediction_' f) i j k"
  shows "relative_time (point_at (prediction_' (AlignPredictionTime H f)) i j k) =
         timestamp_sec (header (prediction_' f))
           + relative_time (point_at (prediction_' f) i j k) - H"
  using assms by (simp add: point_at_Align)

text \<open>
  The spec's example: header timestamp 100, a point at 0.5, \<open>H = 101\<close>; the point
  ends at -0.5.
\<close>

theorem AlignPredictionTime_relative_time_witness:
  "has_point (prediction_' (test_frame None test_pos
      (test_prediction (100::real) [test_obstacle ''99'' (1/2)]))) 0 0 0 \<and>
   relative_time (point_at (prediction_' (AlignPredictionTime 101
      (test_frame None test_pos
        (test_prediction (100::real) [test_obstacle ''99'' (1/2)])))) 0 0 0) = - (1/2)"
proof -
  let ?f = "test_frame None test_pos (test_prediction (100::real) [test_obstacle ''99'' (1/2)])"
  have h: "has_point (prediction_' ?f) 0 0 0"
    by (simp add: has_point_def test_defs)
  show ?thesis
    using h AlignPredictionTime_relative_time [OF h, of 101]
    by (simp add: point_at_def test_defs)
qed

subsection \<open>C3: a successful \<open>Init\<close>\<close>

text \<open>
  C3. When the map is set, the pose's coordinates are finite, the map finds a path for
  the routing response and the pose, and the smoother (with the configuration that
  \<open>Init\<close> is given) succeeds and produces the line \<open>l\<close>, then \<open>Init\<close> returns true,
  the list of candidates is not empty afterwards, the frame's primary reference line is
  \<open>l\<close>, the reference line the builder returned first, and it is the reference line of
  the first candidate in the list.
\<close>

theorem Init_succeeds:
  assumes "pnc_map_' f = Some m"
    and "isfinite (x_' (position (init_pose_' f)))"
    and "isfinite (y_' (position (init_pose_' f)))"
    and "m (routing_response_' f) (position (init_pose_' f))
           (FLAGS_look_backward_distance env) (FLAGS_look_forward_distance env) = Some path"
    and "smooth env (reference_line_smoother_config config) (ReferenceLine_of_path env path)
           (ReferenceLine_empty env) = (True, l)"
  shows "\<exists>f1. Init env config f = Some (True, f1) \<and>
           reference_line_info_' f1 \<noteq> [] \<and>
           reference_line_' f1 = l \<and>
           reference_line (hd (reference_line_info_' f1)) = reference_line_' f1"
proof -
  let ?g = "f\<lparr>smoother_config_' := reference_line_smoother_config config,
              events := events f @ [Call CreatePathFromRouting_call, Call smooth_call]\<rparr>"
  let ?f3 = "if FLAGS_enable_prediction env
             then CreatePredictionObstacles env (prediction_' f) ?g else ?g"
  let ?f4 = "snd (InitReferenceLineInfo env [l] ?f3)"
  have run: "Init env config f = Some (True, ?f4\<lparr>reference_line_' := l, path_decision_' := Some 0\<rparr>)"
    using assms(2,3)
    by (intro Init_reached [OF assms(1) _ _ assms(4) assms(5)]) (simp_all add: isfinite_not_nan)
  have lines: "map reference_line (reference_line_info_' ?f4) = [l]"
    by (rule InitReferenceLineInfo_lines)
  then have "reference_line_info_' ?f4 \<noteq> []" and "reference_line (hd (reference_line_info_' ?f4)) = l"
    by (auto simp add: map_eq_Cons_conv)
  then show ?thesis using run by simp
qed

text \<open>
  The spec's scenario: pose (10, 5), a routing response that the map covers, an empty
  prediction set. \<open>Init\<close> succeeds, there is one candidate, nothing is attached to it
  and the registry is empty.
\<close>

theorem Init_succeeds_witness:
  "map_option (\<lambda>(ok, f1). (ok, reference_line_info_' f1, reference_line_' f1, obstacles_' f1))
     (Init (test_env True) (test_config True)
        (test_frame (Some test_map) test_pos (test_prediction (100::real) []))) =
   Some (True, [\<lparr>reference_line = [1, 2, 3], path_decision = []\<rparr>], [1, 2, 3], [])"
proof -
  let ?f = "test_frame (Some test_map) test_pos (test_prediction (100::real) [])"
  have 1: "pnc_map_' ?f = Some test_map" by (simp add: test_defs)
  have 2: "isfinite (x_' (position (init_pose_' ?f)))" by (simp add: test_defs)
  have 3: "isfinite (y_' (position (init_pose_' ?f)))" by (simp add: test_defs)
  have 4: "test_map (routing_response_' ?f) (position (init_pose_' ?f))
      (FLAGS_look_backward_distance (test_env True))
      (FLAGS_look_forward_distance (test_env True)) = Some [1, 2, 3]"
    by (simp add: test_defs)
  have 5: "smooth (test_env True) (reference_line_smoother_config (test_config True))
      (ReferenceLine_of_path (test_env True) [1, 2, 3]) (ReferenceLine_empty (test_env True)) =
      (True, [1, 2, 3])"
    by (simp add: test_defs)
  show ?thesis
    using Init_succeeds [OF 1 2 3 4 5]
    by (simp add: run_defs test_defs)
qed

subsection \<open>C4: the map is not set\<close>

text \<open>
  C4. When the map reference is unset, \<open>Init\<close> returns false, its only effect is the
  log line "map is null, call SetMap() first", and the list of candidates is what it
  was (empty, if it was empty): no reference line is produced.
\<close>

theorem Init_map_unset:
  assumes "pnc_map_' f = None"
  shows "\<exists>f1. Init env config f = Some (False, f1) \<and>
           events_since f f1 = [AERROR ''map is null, call SetMap() first''] \<and>
           reference_line_info_' f1 = reference_line_info_' f \<and>
           f1\<lparr>events := events f\<rparr> = f"
  using assms by (simp add: Init_def record_event_def events_since_def)

theorem Init_map_unset_witness:
  "map_option (\<lambda>(ok, f1). (ok, reference_line_info_' f1, events f1))
     (Init (test_env True) (test_config True)
        (test_frame None test_pos (test_prediction (100::real) []))) =
   Some (False, [], [AERROR ''map is null, call SetMap() first''])"
proof -
  let ?f = "test_frame None test_pos (test_prediction (100::real) [])"
  have 1: "pnc_map_' ?f = None" by (simp add: test_defs)
  show ?thesis
    using Init_map_unset [OF 1, of "test_env True" "test_config True"]
    by (simp add: run_defs test_defs)
qed

subsection \<open>C5: a pose that is not a number\<close>

text \<open>
  C5, as stated, says that \<open>Init\<close> fails, before the map is called, for every pose with
  a coordinate that is not-a-number. \<open>Init\<close> tests \<open>x\<close> and \<open>y\<close> of the position and
  nothing else. With the map set, \<open>x = 10\<close>, \<open>y = 5\<close> and a \<open>z\<close> that is not-a-number,
  \<open>Init\<close> calls the map and returns true; and so it does when the heading is
  not-a-number.
\<close>

theorem Init_nan_pose_counterexample:
  "isnan (z_' (position (init_pose_'
      (test_frame (Some test_map) \<lparr>x_' = Fin 10, y_' = Fin 5, z_' = NaN\<rparr>
         (test_prediction (100::real) []))))) \<and>
   map_option (\<lambda>(ok, f1). (ok, events f1))
     (Init (test_env True) (test_config True)
        (test_frame (Some test_map) \<lparr>x_' = Fin 10, y_' = Fin 5, z_' = NaN\<rparr>
           (test_prediction (100::real) []))) =
   Some (True, [Call CreatePathFromRouting_call, Call smooth_call, Call CreateObstacles_call,
                Call AddObstacles_call]) \<and>
   map_option (\<lambda>(ok, f1). (ok, events f1))
     (Init (test_env True) (test_config True)
        ((test_frame (Some test_map) test_pos (test_prediction (100::real) []))
           \<lparr>init_pose_' := \<lparr>position = test_pos, heading = NaN\<rparr>\<rparr>)) =
   Some (True, [Call CreatePathFromRouting_call, Call smooth_call, Call CreateObstacles_call,
                Call AddObstacles_call])"
  by (simp add: run_defs test_defs)

text \<open>
  C5, amended. When \<open>x\<close> or \<open>y\<close> of the pose's position is not-a-number, \<open>Init\<close>
  returns false, the map collaborator is not called during the run, and the frame is
  unchanged but for one log line: "init point is not set" when the map is set, and
  "map is null, call SetMap() first" when it is not, since the test of the map comes
  first. No other coordinate is tested: when \<open>x\<close> and \<open>y\<close> are numbers and the map is
  set, \<open>Init\<close> goes on and calls the map, whatever \<open>z\<close> and the heading are.
\<close>

theorem Init_nan_pose:
  fixes f :: "('t, 'r, 'p, 'l, 'c, 'g, 'd) Frame"
  shows "\<exists>ok f1. Init env config f = Some (ok, f1) \<and>
     (if isnan (x_' (position (init_pose_' f))) \<or> isnan (y_' (position (init_pose_' f)))
      then \<not> ok \<and>
           Call CreatePathFromRouting_call \<notin> set (events_since f f1) \<and>
           events_since f f1 =
             [AERROR (if pnc_map_' f = None then ''map is null, call SetMap() first''
                      else ''init point is not set'')] \<and>
           f1\<lparr>events := events f\<rparr> = f
      else pnc_map_' f \<noteq> None \<longrightarrow>
           Call CreatePathFromRouting_call \<in> set (events_since f f1))"
proof (cases "isnan (x_' (position (init_pose_' f))) \<or> isnan (y_' (position (init_pose_' f)))")
  case True
  then show ?thesis
    by (auto simp add: Init_def record_event_def events_since_def)
next
  case False
  obtain ok f1 where run: "Init env config f = Some (ok, f1)"
    using Init_defined [of env config f] by blast
  have "Call CreatePathFromRouting_call \<in> set (events_since f f1)" if "pnc_map_' f \<noteq> None"
  proof -
    from that obtain m where m: "pnc_map_' f = Some m" by blast
    from Init_calls_map [OF m _ _ run] False
    obtain rest where "events f1 = events f @ Call CreatePathFromRouting_call # rest"
      by blast
    then show ?thesis by (simp add: events_since_def)
  qed
  then show ?thesis using False run by simp
qed

theorem Init_nan_pose_witness:
  "map_option (\<lambda>(ok, f1). (ok, events f1))
     (Init (test_env True) (test_config True)
        (test_frame (Some test_map) \<lparr>x_' = Fin 10, y_' = NaN, z_' = Fin 0\<rparr>
           (test_prediction (100::real) []))) =
   Some (False, [AERROR ''init point is not set''])"
  using Init_nan_pose [of "test_env True" "test_config True"
      "test_frame (Some test_map) \<lparr>x_' = Fin 10, y_' = NaN, z_' = Fin 0\<rparr>
         (test_prediction (100::real) [])"]
  by (simp add: run_defs test_defs)

subsection \<open>C6: two obstacles with one identity\<close>




subsection \<open>C7: rebasing twice\<close>

text \<open>
  C7, as stated, says that a second call with the same \<open>H\<close> changes every point's
  \<open>relative_time\<close> again, for every prediction set and every \<open>H\<close>. It does not when
  \<open>H\<close> is the header timestamp of the prediction set: with header 100, a point at
  0.5 and \<open>H = 100\<close>, the first call leaves 0.5 and so does the second (100 + 0.5 and
  100.5 - 100 are exact in binary64 as they are in the real numbers).
\<close>

theorem AlignPredictionTime_twice_counterexample:
  "has_point (prediction_' (test_frame None test_pos
      (test_prediction (100::real) [test_obstacle ''99'' (1/2)]))) 0 0 0 \<and>
   relative_time (point_at (prediction_' (AlignPredictionTime 100 (AlignPredictionTime 100
      (test_frame None test_pos
        (test_prediction (100::real) [test_obstacle ''99'' (1/2)]))))) 0 0 0) =
   relative_time (point_at (prediction_' (AlignPredictionTime 100
      (test_frame None test_pos
        (test_prediction (100::real) [test_obstacle ''99'' (1/2)])))) 0 0 0)"
  by (simp add: has_point_def point_at_def AlignPredictionTime_map test_defs)

text \<open>
  C7, amended. For every prediction set, every \<open>H\<close> and every point: the first call
  leaves \<open>T + R - H\<close>, with \<open>T\<close> the header timestamp and \<open>R\<close> the point's
  \<open>relative_time\<close> before; the timestamp stays; and the second call with the same \<open>H\<close>
  puts \<open>T + r - H\<close> in the place of the value \<open>r\<close> that the first call left. So the
  second call changes the point exactly when \<open>T + r - H\<close> differs from \<open>r\<close>, in the
  arithmetic of the times. Nothing is assumed of that arithmetic.
\<close>

theorem AlignPredictionTime_twice:
  assumes "has_point (prediction_' f) i j k"
  shows "relative_time (point_at (prediction_' (AlignPredictionTime H f)) i j k) =
           timestamp_sec (header (prediction_' f))
             + relative_time (point_at (prediction_' f) i j k) - H \<and>
         relative_time (point_at
             (prediction_' (AlignPredictionTime H (AlignPredictionTime H f))) i j k) =
           timestamp_sec (header (prediction_' f))
             + relative_time (point_at (prediction_' (AlignPredictionTime H f)) i j k) - H \<and>
         (relative_time (point_at
             (prediction_' (AlignPredictionTime H (AlignPredictionTime H f))) i j k) \<noteq>
          relative_time (point_at (prediction_' (AlignPredictionTime H f)) i j k)
          \<longleftrightarrow>
          timestamp_sec (header (prediction_' f))
             + relative_time (point_at (prediction_' (AlignPredictionTime H f)) i j k) - H \<noteq>
          relative_time (point_at (prediction_' (AlignPredictionTime H f)) i j k))"
proof -
  let ?g = "AlignPredictionTime H f"
  have g: "has_point (prediction_' ?g) i j k"
    using assms by (simp add: has_point_Align)
  have one: "relative_time (point_at (prediction_' ?g) i j k) =
      timestamp_sec (header (prediction_' f)) + relative_time (point_at (prediction_' f) i j k) - H"
    using assms by (simp add: point_at_Align)
  have two: "relative_time (point_at (prediction_' (AlignPredictionTime H ?g)) i j k) =
      timestamp_sec (header (prediction_' f)) + relative_time (point_at (prediction_' ?g) i j k) - H"
    by (simp add: point_at_Align [OF g] header_Align)
  show ?thesis
    unfolding two using one by simp
qed

text \<open>
  The spec's example, twice: header timestamp 100, a point at 0.5, \<open>H = 101\<close>. The
  point is at -0.5 after the first call and at -1.5 after the second.
\<close>

theorem AlignPredictionTime_twice_witness:
  "relative_time (point_at (prediction_' (AlignPredictionTime 101
      (test_frame None test_pos
        (test_prediction (100::real) [test_obstacle ''99'' (1/2)])))) 0 0 0) = - (1/2) \<and>
   relative_time (point_at (prediction_' (AlignPredictionTime 101 (AlignPredictionTime 101
      (test_frame None test_pos
        (test_prediction (100::real) [test_obstacle ''99'' (1/2)]))))) 0 0 0) = - (3/2)"
proof -
  let ?f = "test_frame None test_pos (test_prediction (100::real) [test_obstacle ''99'' (1/2)])"
  have h: "has_point (prediction_' ?f) 0 0 0"
    by (simp add: has_point_def test_defs)
  have t: "timestamp_sec (header (prediction_' ?f)) = 100"
    by (simp add: test_defs)
  have r: "relative_time (point_at (prediction_' ?f) 0 0 0) = 1/2"
    by (simp add: point_at_def test_defs)
  show ?thesis
    using AlignPredictionTime_twice [OF h, of 101] by (simp add: t r)
qed

subsection \<open>C8: what \<open>Init\<close> rebuilds\<close>




subsection \<open>C9: the reference-line builder\<close>

text \<open>
  C9, as stated, says that a failing call leaves the output vector unchanged. When the
  map finds a path and the smoother fails, it does not: the vector was empty and holds
  one reference line afterwards, the one appended for the smoother to write into.
\<close>

theorem CreateReferenceLineFromRouting_failure_counterexample:
  "map_option (\<lambda>(ok, ls, f1). (ok, ls))
     (CreateReferenceLineFromRouting (test_env True) test_pos [1, 2, 3] []
        (test_frame (Some test_map) test_pos (test_prediction (100::real) []))) =
   Some (False, [[]])"
  by (simp add: run_defs test_defs)

text \<open>
  C9, amended. With the map set, a call of \<open>CreateReferenceLineFromRouting\<close> changes
  no member of the frame (it adds to the log only). When it returns true, the vector
  holds what it held and one more reference line at the end. When the map finds no
  path, it returns false and the vector is unchanged. When the map finds a path, it
  returns what the smoother returns, and the vector holds what it held and, at the end,
  the reference line as the smoother left it: also when the smoother fails.
\<close>

theorem CreateReferenceLineFromRouting_candidates:
  assumes "pnc_map_' f = Some m"
  shows "\<exists>ok ls1 f1.
     CreateReferenceLineFromRouting env pos routing ls f = Some (ok, ls1, f1) \<and>
     f1\<lparr>events := events f\<rparr> = f \<and>
     (ok \<longrightarrow> length ls1 = length ls + 1 \<and> butlast ls1 = ls) \<and>
     (case m routing pos (FLAGS_look_backward_distance env) (FLAGS_look_forward_distance env) of
        None \<Rightarrow> \<not> ok \<and> ls1 = ls
      | Some path \<Rightarrow>
          ok = fst (smooth env (smoother_config_' f) (ReferenceLine_of_path env path)
                      (ReferenceLine_empty env)) \<and>
          ls1 = ls @ [snd (smooth env (smoother_config_' f) (ReferenceLine_of_path env path)
                             (ReferenceLine_empty env))])"
  by (auto simp add: CreateReferenceLineFromRouting_eq [OF assms] Let_def split: option.splits)

theorem CreateReferenceLineFromRouting_candidates_witness:
  "map_option (\<lambda>(ok, ls, f1). (ok, ls))
     (CreateReferenceLineFromRouting (test_env True) test_pos [1, 2, 3] [[7]]
        ((test_frame (Some test_map) test_pos (test_prediction (100::real) []))
           \<lparr>smoother_config_' := True\<rparr>)) =
   Some (True, [[7], [1, 2, 3]])"
proof -
  let ?f = "(test_frame (Some test_map) test_pos (test_prediction (100::real) []))
           \<lparr>smoother_config_' := True\<rparr>"
  have 1: "pnc_map_' ?f = Some test_map" by (simp add: test_defs)
  show ?thesis
    using CreateReferenceLineFromRouting_candidates [OF 1, of "test_env True" test_pos "[1, 2, 3]" "[[7]]"]
    by (simp add: run_defs test_defs)
qed

subsection \<open>C10: what \<open>AlignPredictionTime\<close> leaves alone\<close>

text \<open>
  C10. \<open>AlignPredictionTime\<close> changes nothing but the \<open>relative_time\<close> of trajectory
  points. The frame is the same but for its prediction set; the header of the
  prediction set and the number of its obstacles are the same; every obstacle is the
  same but for its trajectories, and has as many as before; every trajectory is the
  same but for its points, and has as many as before; and every point, with its old
  \<open>relative_time\<close> put back, is the point it was.
\<close>

theorem AlignPredictionTime_changes_relative_time_only:
  fixes f :: "('t::{plus, minus}, 'r, 'p, 'l, 'c, 'g, 'd) Frame" and H :: 't
  defines "p \<equiv> prediction_' f"
    and "q \<equiv> prediction_' (AlignPredictionTime H f)"
  shows "(AlignPredictionTime H f)\<lparr>prediction_' := p\<rparr> = f \<and>
   header q = header p \<and>
   length (prediction_obstacle q) = length (prediction_obstacle p) \<and>
   (\<forall>i < length (prediction_obstacle p).
      (prediction_obstacle q ! i)\<lparr>trajectory := trajectory (prediction_obstacle p ! i)\<rparr> =
        prediction_obstacle p ! i \<and>
      length (trajectory (prediction_obstacle q ! i)) =
        length (trajectory (prediction_obstacle p ! i)) \<and>
      (\<forall>j < length (trajectory (prediction_obstacle p ! i)).
         (trajectory (prediction_obstacle q ! i) ! j)
            \<lparr>trajectory_point := trajectory_point (trajectory (prediction_obstacle p ! i) ! j)\<rparr> =
           trajectory (prediction_obstacle p ! i) ! j \<and>
         length (trajectory_point (trajectory (prediction_obstacle q ! i) ! j)) =
           length (trajectory_point (trajectory (prediction_obstacle p ! i) ! j)) \<and>
         (\<forall>k < length (trajectory_point (trajectory (prediction_obstacle p ! i) ! j)).
            (point_at q i j k)\<lparr>relative_time := relative_time (point_at p i j k)\<rparr> =
              point_at p i j k)))"
  unfolding p_def q_def by (simp add: AlignPredictionTime_map point_at_def)

theorem AlignPredictionTime_changes_relative_time_only_witness:
  "AlignPredictionTime 101
     (test_frame None test_pos (test_prediction (100::real) [test_obstacle ''99'' (1/2)])) =
   test_frame None test_pos (test_prediction (100::real) [test_obstacle ''99'' (- (1/2))])"
proof -
  let ?f = "test_frame None test_pos (test_prediction (100::real) [test_obstacle ''99'' (1/2)])"
  show ?thesis
    using AlignPredictionTime_changes_relative_time_only [of ?f 101]
    by (simp add: AlignPredictionTime_map test_defs)
qed

end

